theory Spec2Isabelle
  imports Complex_Main "HOL-Library.Word"
begin

section \<open>Frame data and the effect driver (PremiumVideoEffectDriver)\<close>

text \<open>
  Modelled from the spec: the class PremiumVideoEffectConfig is imported by the driver but
  its declaration is not among the sources; the spec gives it as a set of two named
  boolean flags, both initially false. The driver reads and writes exactly these two fields.
\<close>

record PremiumVideoEffectConfig =
  blueShiftEnabled :: bool
  redShiftEnabled :: bool

definition initialEffectConfig :: PremiumVideoEffectConfig where
  "initialEffectConfig = \<lparr>blueShiftEnabled = False, redShiftEnabled = False\<rparr>"

text \<open>
  Width and height are shared by the platform's ImageData and canvas objects. An
  ImageData carries a Uint8ClampedArray: a sequence of bytes.
\<close>

record Dimensions =
  width :: nat
  height :: nat

record ImageData = Dimensions +
  data :: "8 word list"

datatype DOMException = InvalidStateError | IndexSizeError

definition CHANNEL_COUNT :: nat where
  "CHANNEL_COUNT = 4"

definition MAX_PIXEL_VAL :: int where
  "MAX_PIXEL_VAL = 255"

text \<open>
  The platform's constructor \<^verbatim>\<open>new ImageData(data, sw, sh)\<close>: it rejects a byte length
  that is zero or not a multiple of four, a pixel count that is not a multiple of the
  width (a zero width included), and a height other than the one the data implies.
\<close>

definition new_ImageData :: "8 word list \<Rightarrow> nat \<Rightarrow> nat \<Rightarrow> DOMException + ImageData" where
  "new_ImageData d sw sh =
     (if length d = 0 \<or> length d mod 4 \<noteq> 0 then Inl InvalidStateError
      else if sw = 0 \<or> (length d div 4) mod sw \<noteq> 0 then Inl IndexSizeError
      else if (length d div 4) div sw \<noteq> sh then Inl IndexSizeError
      else Inr \<lparr>width = sw, height = sh, data = d\<rparr>)"

text \<open>
  The invariant of every ImageData object the platform hands out: positive dimensions and
  four bytes per pixel.
\<close>

definition isImageData :: "ImageData \<Rightarrow> bool" where
  "isImageData img =
     (0 < width img \<and> 0 < height img \<and> length (data img) = width img * height img * 4)"

text \<open>
  Storing a number into a Uint8ClampedArray clamps it to the range of a byte; reading an
  element gives its value as a number.
\<close>

definition toUint8Clamp :: "int \<Rightarrow> 8 word" where
  "toUint8Clamp n = (if n < 0 then 0 else if 255 < n then 255 else word_of_int n)"

definition map_Uint8ClampedArray :: "(int \<Rightarrow> nat \<Rightarrow> int) \<Rightarrow> 8 word list \<Rightarrow> 8 word list" where
  "map_Uint8ClampedArray f xs =
     map (\<lambda>(currentPixel, idx). toUint8Clamp (f (uint currentPixel) idx)) (zip xs [0..<length xs])"

text \<open>The closure \<^verbatim>\<open>transformData\<close> inside \<^verbatim>\<open>apply\<close>, with the flags it reads from the config.\<close>

definition transformData :: "PremiumVideoEffectConfig \<Rightarrow> int \<Rightarrow> nat \<Rightarrow> int" where
  "transformData config currentPixel idx =
     (if redShiftEnabled config \<and> idx mod CHANNEL_COUNT = 0 then MAX_PIXEL_VAL
      else if blueShiftEnabled config \<and> idx mod CHANNEL_COUNT = 2 then MAX_PIXEL_VAL
      else currentPixel)"

text \<open>
  \<^verbatim>\<open>PremiumVideoEffectDriver.apply\<close>, as a function of the flags the driver's config holds
  when it is called.
\<close>

definition driver_apply :: "PremiumVideoEffectConfig \<Rightarrow> ImageData \<Rightarrow> DOMException + ImageData" where
  "driver_apply config inputImageData =
     (let rawOutputData = map_Uint8ClampedArray (transformData config) (data inputImageData)
      in new_ImageData rawOutputData (width inputImageData) (height inputImageData))"


section \<open>The platform: tracks, streams, logger, timers\<close>

text \<open>
  Media tracks and streams are shared, mutable objects: the same audio track is held by the
  input stream and, after cloning, by the output stream, and stopping it is seen through
  both. They live in a store and are named by references. The config object of the effect
  driver lives in the store for the same reason: every device built around one driver reads
  and writes the one config.
\<close>

type_synonym track_ref = nat
type_synonym stream_ref = nat
type_synonym config_ref = nat
type_synonym timeout_id = nat

datatype TrackKind = Video | Audio

datatype ReadyState = Live | Ended

record MediaStreamTrack =
  kind :: TrackKind
  readyState :: ReadyState
  settingsWidth :: "nat option"
  settingsHeight :: "nat option"

datatype LogLevel = Info | Warn | Error

text \<open>A logged message: literal text, and the id of a track where the template interpolates one.\<close>

datatype LogPart = Txt string | TrackId track_ref

type_synonym LogEntry = "LogLevel \<times> LogPart list"

record World =
  tracks :: "track_ref \<Rightarrow> MediaStreamTrack"
  streams :: "stream_ref \<Rightarrow> track_ref list"
  nextTrack :: track_ref
  nextStream :: stream_ref
  configs :: "config_ref \<Rightarrow> PremiumVideoEffectConfig"
  nextTimeout :: timeout_id
  logged :: "LogEntry list"

datatype JSError = TypeError | DOMError DOMException

definition logger_info :: "LogPart list \<Rightarrow> World \<Rightarrow> World" where
  "logger_info msg w = w\<lparr>logged := logged w @ [(Info, msg)]\<rparr>"

definition logger_warn :: "LogPart list \<Rightarrow> World \<Rightarrow> World" where
  "logger_warn msg w = w\<lparr>logged := logged w @ [(Warn, msg)]\<rparr>"

definition logger_error :: "LogPart list \<Rightarrow> World \<Rightarrow> World" where
  "logger_error msg w = w\<lparr>logged := logged w @ [(Error, msg)]\<rparr>"

subsection \<open>MediaStream and MediaStreamTrack\<close>

definition getTracks :: "World \<Rightarrow> stream_ref \<Rightarrow> track_ref list" where
  "getTracks w s = streams w s"

definition getVideoTracks :: "World \<Rightarrow> stream_ref \<Rightarrow> track_ref list" where
  "getVideoTracks w s = filter (\<lambda>t. kind (tracks w t) = Video) (streams w s)"

definition getAudioTracks :: "World \<Rightarrow> stream_ref \<Rightarrow> track_ref list" where
  "getAudioTracks w s = filter (\<lambda>t. kind (tracks w t) = Audio) (streams w s)"

text \<open>A stream is active while at least one of its tracks has not ended.\<close>

definition active :: "World \<Rightarrow> stream_ref \<Rightarrow> bool" where
  "active w s = list_ex (\<lambda>t. readyState (tracks w t) = Live) (streams w s)"

definition track_stop :: "track_ref \<Rightarrow> World \<Rightarrow> World" where
  "track_stop t w = w\<lparr>tracks := (tracks w)(t := (tracks w t)\<lparr>readyState := Ended\<rparr>)\<rparr>"

definition removeTrack :: "stream_ref \<Rightarrow> track_ref \<Rightarrow> World \<Rightarrow> World" where
  "removeTrack s t w = w\<lparr>streams := (streams w)(s := removeAll t (streams w s))\<rparr>"

definition addTrack :: "stream_ref \<Rightarrow> track_ref \<Rightarrow> World \<Rightarrow> World" where
  "addTrack s t w =
     (if t \<in> set (streams w s) then w
      else w\<lparr>streams := (streams w)(s := streams w s @ [t])\<rparr>)"

definition new_MediaStream :: "World \<Rightarrow> stream_ref \<times> World" where
  "new_MediaStream w =
     (nextStream w,
      w\<lparr>streams := (streams w)(nextStream w := []), nextStream := Suc (nextStream w)\<rparr>)"

subsection \<open>Video element and canvas\<close>

text \<open>
  The video element as the handler drives it: the bound source, whether \<^verbatim>\<open>process\<close> is
  registered for \<^verbatim>\<open>loadedmetadata\<close> (registering the same function twice registers it
  once), the \<^verbatim>\<open>playsinline\<close> attribute, and how often \<^verbatim>\<open>load\<close> and \<^verbatim>\<open>play\<close> were called.
\<close>

record HTMLVideoElement =
  srcObject :: "stream_ref option"
  loadedmetadataListener :: bool
  playsinline :: bool
  loadCalls :: nat
  playCalls :: nat

text \<open>
  A canvas with its 2d context: its size, and what was done to its bitmap. The bitmap's
  bytes are the platform's; the model keeps the images written to it, oldest first.
\<close>

record HTMLCanvasElement = Dimensions +
  drawImageCalls :: nat
  putImageDataCalls :: "ImageData list"

definition createElement_video :: HTMLVideoElement where
  "createElement_video =
     \<lparr>srcObject = None, loadedmetadataListener = False, playsinline = False,
      loadCalls = 0, playCalls = 0\<rparr>"

definition createElement_canvas :: HTMLCanvasElement where
  "createElement_canvas =
     \<lparr>width = 300, height = 150, drawImageCalls = 0, putImageDataCalls = []\<rparr>"

text \<open>
  Assigning to \<^verbatim>\<open>canvas.width\<close> or \<^verbatim>\<open>canvas.height\<close>: the value is converted to an unsigned
  32-bit integer (\<^verbatim>\<open>undefined\<close> becomes zero, a larger number wraps), and the attribute
  stores it if it is at most \<open>2\<^sup>3\<^sup>1 - 1\<close> and its default (300 for the width, 150 for the
  height) otherwise.
\<close>

definition toUnsignedLong :: "nat option \<Rightarrow> nat" where
  "toUnsignedLong v = (case v of None \<Rightarrow> 0 | Some n \<Rightarrow> n mod 4294967296)"

definition reflectedDimension :: "nat \<Rightarrow> nat \<Rightarrow> nat" where
  "reflectedDimension dflt n = (if n \<le> 2147483647 then n else dflt)"

definition canvas_setWidth :: "nat option \<Rightarrow> HTMLCanvasElement \<Rightarrow> HTMLCanvasElement" where
  "canvas_setWidth v c = c\<lparr>width := reflectedDimension 300 (toUnsignedLong v)\<rparr>"

definition canvas_setHeight :: "nat option \<Rightarrow> HTMLCanvasElement \<Rightarrow> HTMLCanvasElement" where
  "canvas_setHeight v c = c\<lparr>height := reflectedDimension 150 (toUnsignedLong v)\<rparr>"

text \<open>
  \<^verbatim>\<open>getImageData(0, 0, sw, sh)\<close> rejects an empty rectangle; otherwise the platform returns
  the rectangle's bytes, which are the first argument here (always \<open>sw * sh * 4\<close> of them).
\<close>

definition getImageData :: "8 word list \<Rightarrow> nat \<Rightarrow> nat \<Rightarrow> DOMException + ImageData" where
  "getImageData pixels sw sh =
     (if sw = 0 \<or> sh = 0 then Inl IndexSizeError
      else Inr \<lparr>width = sw, height = sh, data = pixels\<rparr>)"

definition putImageData :: "ImageData \<Rightarrow> HTMLCanvasElement \<Rightarrow> HTMLCanvasElement" where
  "putImageData img c = c\<lparr>putImageDataCalls := putImageDataCalls c @ [img]\<rparr>"

text \<open>
  \<^verbatim>\<open>captureStream\<close> derives a fresh stream with one fresh live video track fed by the canvas.
\<close>

definition captureStream :: "HTMLCanvasElement \<Rightarrow> nat \<Rightarrow> World \<Rightarrow> stream_ref \<times> World" where
  "captureStream c frameRate w =
     (nextStream w,
      w\<lparr>tracks := (tracks w)(nextTrack w :=
           \<lparr>kind = Video, readyState = Live,
            settingsWidth = Some (width c), settingsHeight = Some (height c)\<rparr>),
        streams := (streams w)(nextStream w := [nextTrack w]),
        nextTrack := Suc (nextTrack w),
        nextStream := Suc (nextStream w)\<rparr>)"

section \<open>The effect driver as an object\<close>

record PremiumVideoEffectDriver =
  config :: config_ref

definition new_PremiumVideoEffectDriver ::
  "config_ref \<Rightarrow> World \<Rightarrow> PremiumVideoEffectDriver \<times> World" where
  "new_PremiumVideoEffectDriver c w =
     (\<lparr>config = c\<rparr>, logger_info [Txt ''PremiumVideoEffectDriver Created''] w)"

definition driver_apply_in ::
  "PremiumVideoEffectDriver \<Rightarrow> World \<Rightarrow> ImageData \<Rightarrow> DOMException + ImageData" where
  "driver_apply_in drv w inputImageData = driver_apply (configs w (config drv)) inputImageData"

definition setBlueShiftState :: "PremiumVideoEffectDriver \<Rightarrow> bool \<Rightarrow> World \<Rightarrow> World" where
  "setBlueShiftState drv enabled w =
     w\<lparr>configs := (configs w)(config drv := (configs w (config drv))\<lparr>blueShiftEnabled := enabled\<rparr>)\<rparr>"

definition setRedShiftState :: "PremiumVideoEffectDriver \<Rightarrow> bool \<Rightarrow> World \<Rightarrow> World" where
  "setRedShiftState drv enabled w =
     w\<lparr>configs := (configs w)(config drv := (configs w (config drv))\<lparr>redShiftEnabled := enabled\<rparr>)\<rparr>"

definition getEffectConfig :: "PremiumVideoEffectDriver \<Rightarrow> config_ref" where
  "getEffectConfig drv = config drv"

section \<open>The stream handler (PremiumVideoStreamHandler)\<close>

definition DEFAULT_FRAMERATE :: nat where
  "DEFAULT_FRAMERATE = 15"

definition MIN_FRAME_DELAY :: real where
  "MIN_FRAME_DELAY = 0"

definition MS_PER_SECOND :: real where
  "MS_PER_SECOND = 1000"

text \<open>
  The handler object with the platform objects only it holds: its video element, its two
  canvases, and the timeouts pending with \<^verbatim>\<open>process\<close> as their callback (handle and delay).
  The class declares the field \<^verbatim>\<open>lastTimeOut\<close>; \<^verbatim>\<open>process\<close> assigns, under a suppressed
  type error, the property \<^verbatim>\<open>lastTimeout\<close>, which is a different property of the object.
\<close>

record PremiumVideoStreamHandler =
  framerate :: nat
  lastTimeOut :: "timeout_id option"
  lastTimeout :: "timeout_id option"
  videoInput :: HTMLVideoElement
  canvasInput :: HTMLCanvasElement
  inputVideoStream :: "stream_ref option"
  canvasOutput :: HTMLCanvasElement
  outputMediaStream :: stream_ref
  videoEffectDriver :: PremiumVideoEffectDriver
  pendingTimeouts :: "(timeout_id \<times> real) list"

definition new_PremiumVideoStreamHandler ::
  "PremiumVideoEffectDriver \<Rightarrow> World \<Rightarrow> PremiumVideoStreamHandler \<times> World" where
  "new_PremiumVideoStreamHandler drv w =
     (let (out, w1) = new_MediaStream w
      in (\<lparr>framerate = DEFAULT_FRAMERATE, lastTimeOut = None, lastTimeout = None,
           videoInput = createElement_video, canvasInput = createElement_canvas,
           inputVideoStream = None, canvasOutput = createElement_canvas,
           outputMediaStream = out, videoEffectDriver = drv, pendingTimeouts = []\<rparr>, w1))"

text \<open>\<^verbatim>\<open>setTimeout(this.process, delay)\<close> and \<^verbatim>\<open>clearTimeout\<close>; handles are positive.\<close>

definition setTimeout ::
  "real \<Rightarrow> PremiumVideoStreamHandler \<Rightarrow> World \<Rightarrow> timeout_id \<times> PremiumVideoStreamHandler \<times> World" where
  "setTimeout delay h w =
     (nextTimeout w,
      h\<lparr>pendingTimeouts := pendingTimeouts h @ [(nextTimeout w, delay)]\<rparr>,
      w\<lparr>nextTimeout := Suc (nextTimeout w)\<rparr>)"

definition clearTimeout :: "timeout_id \<Rightarrow> PremiumVideoStreamHandler \<Rightarrow> PremiumVideoStreamHandler" where
  "clearTimeout t h = h\<lparr>pendingTimeouts := filter (\<lambda>p. fst p \<noteq> t) (pendingTimeouts h)\<rparr>"

definition isOutputMediaStreamActive :: "PremiumVideoStreamHandler \<Rightarrow> World \<Rightarrow> bool" where
  "isOutputMediaStreamActive h w = active w (outputMediaStream h)"

definition cloneInputAudioTracksToOutput ::
  "PremiumVideoStreamHandler \<Rightarrow> World \<Rightarrow> PremiumVideoStreamHandler \<times> World" where
  "cloneInputAudioTracksToOutput h w =
     (if \<not> isOutputMediaStreamActive h w \<or> inputVideoStream h = None
      then (h, logger_info
                 [Txt ''Not cloning input audio tracks to output, do not have media streams ready''] w)
      else case inputVideoStream h of
        None \<Rightarrow> (h, w)
      | Some inp \<Rightarrow>
          let out = outputMediaStream h;
              w1 = fold (\<lambda>audioTrack w'.
                      removeTrack out audioTrack
                        (logger_info [Txt ''Removing audio track '', TrackId audioTrack,
                                      Txt '' from output stream''] w'))
                     (getAudioTracks w out) w;
              w2 = fold (\<lambda>audioTrack w'.
                      addTrack out audioTrack
                        (logger_info [Txt ''Adding audio track '', TrackId audioTrack,
                                      Txt '' to output stream''] w'))
                     (getAudioTracks w1 inp) w1
          in (h, w2))"

definition getActiveOutputMediaStream ::
  "PremiumVideoStreamHandler \<Rightarrow> World \<Rightarrow> stream_ref \<times> PremiumVideoStreamHandler \<times> World" where
  "getActiveOutputMediaStream h w =
     (if isOutputMediaStreamActive h w then (outputMediaStream h, h, w)
      else
        let (s, w1) = captureStream (canvasOutput h) (framerate h) w;
            h1 = h\<lparr>outputMediaStream := s\<rparr>;
            (h2, w2) = cloneInputAudioTracksToOutput h1 w1
        in (outputMediaStream h2, h2, w2))"

definition destroyInputMediaAndBuffers ::
  "PremiumVideoStreamHandler \<Rightarrow> World \<Rightarrow> PremiumVideoStreamHandler \<times> World" where
  "destroyInputMediaAndBuffers h w =
     (let w1 = (case inputVideoStream h of
                  None \<Rightarrow> w
                | Some inp \<Rightarrow> fold track_stop (getTracks w inp) w)
      in (h\<lparr>inputVideoStream := None\<rparr>, w1))"

definition stop :: "PremiumVideoStreamHandler \<Rightarrow> World \<Rightarrow> PremiumVideoStreamHandler \<times> World" where
  "stop h w =
     (let h1 = h\<lparr>videoInput := (videoInput h)\<lparr>loadedmetadataListener := False, srcObject := None\<rparr>\<rparr>;
          (h2, w2) = destroyInputMediaAndBuffers h1 w;
          w3 = fold track_stop (getTracks w2 (outputMediaStream h2)) w2;
          h3 = (case lastTimeOut h2 of
                  None \<Rightarrow> h2
                | Some t \<Rightarrow> if t = 0 then h2 else (clearTimeout t h2)\<lparr>lastTimeOut := None\<rparr>)
      in (h3, w3))"

text \<open>
  \<^verbatim>\<open>startVideoOnMediaStream\<close> runs up to \<^verbatim>\<open>await this.videoInput.play()\<close> and is suspended
  there, with \<^verbatim>\<open>process\<close> already registered and the source already bound; the platform
  runs other callbacks (a timeout firing, the metadata event) until the promise settles.
  The call is therefore two steps: the part up to the await, and the part that resumes in
  whatever state the handler and the world are in by then. A rejected \<^verbatim>\<open>play()\<close> is caught and
  logged.
\<close>

definition startVideoOnMediaStream_begin ::
  "stream_ref \<Rightarrow> PremiumVideoStreamHandler \<Rightarrow> World
     \<Rightarrow> JSError option \<times> PremiumVideoStreamHandler" where
  "startVideoOnMediaStream_begin inputMediaStream h w =
     (case inputVideoStream h of
        None \<Rightarrow> (Some TypeError, h)
      | Some bound \<Rightarrow>
          (case getVideoTracks w bound of
             [] \<Rightarrow> (Some TypeError, h)
           | t # _ \<Rightarrow>
               let h1 = h\<lparr>canvasOutput := canvas_setWidth (settingsWidth (tracks w t)) (canvasOutput h)\<rparr>;
                   h2 = h1\<lparr>canvasOutput := canvas_setHeight (settingsHeight (tracks w t)) (canvasOutput h1)\<rparr>;
                   h3 = h2\<lparr>videoInput := (videoInput h2)\<lparr>loadedmetadataListener := True\<rparr>\<rparr>;
                   h4 = h3\<lparr>videoInput := (videoInput h3)\<lparr>srcObject := inputVideoStream h3\<rparr>\<rparr>;
                   h5 = h4\<lparr>videoInput := (videoInput h4)\<lparr>playsinline := True\<rparr>\<rparr>;
                   h6 = h5\<lparr>videoInput := (videoInput h5)\<lparr>loadCalls := Suc (loadCalls (videoInput h5))\<rparr>\<rparr>;
                   h7 = h6\<lparr>videoInput := (videoInput h6)\<lparr>playCalls := Suc (playCalls (videoInput h6))\<rparr>\<rparr>
               in (None, h7)))"

definition startVideoOnMediaStream_resume :: "bool \<Rightarrow> World \<Rightarrow> World" where
  "startVideoOnMediaStream_resume playResolved w =
     (if playResolved then w
      else logger_warn [Txt ''Video element play() overriden by another load()''] w)"

text \<open>
  \<^verbatim>\<open>setInputMediaStream\<close> either returns without waiting (no stream, no video track, or an
  error) or is suspended in \<^verbatim>\<open>startVideoOnMediaStream\<close>; when that resumes it synchronises
  the audio tracks and returns.
\<close>

datatype Progress = Returned "JSError option" | AwaitingPlay

definition setInputMediaStream_begin ::
  "stream_ref option \<Rightarrow> PremiumVideoStreamHandler \<Rightarrow> World
     \<Rightarrow> Progress \<times> PremiumVideoStreamHandler \<times> World" where
  "setInputMediaStream_begin inputMediaStream h w =
     (case inputMediaStream of
        None \<Rightarrow> (let (h1, w1) = stop h w in (Returned None, h1, w1))
      | Some s \<Rightarrow>
          if length (getVideoTracks w s) = 0
          then (Returned None, h,
                logger_error [Txt ''No video tracks in input media stream, ignoring''] w)
          else
            let h1 = h\<lparr>inputVideoStream := Some s\<rparr>
            in (case startVideoOnMediaStream_begin s h1 w of
                  (Some e, h2) \<Rightarrow> (Returned (Some e), h2, w)
                | (None, h2) \<Rightarrow> (AwaitingPlay, h2, w)))"

definition setInputMediaStream_resume ::
  "bool \<Rightarrow> PremiumVideoStreamHandler \<Rightarrow> World
     \<Rightarrow> JSError option \<times> PremiumVideoStreamHandler \<times> World" where
  "setInputMediaStream_resume playResolved h w =
     (let w1 = startVideoOnMediaStream_resume playResolved w;
          (h2, w2) = cloneInputAudioTracksToOutput h w1
      in (None, h2, w2))"

text \<open>The whole call when no other callback runs while it waits for \<^verbatim>\<open>play()\<close>.\<close>

definition setInputMediaStream ::
  "bool \<Rightarrow> stream_ref option \<Rightarrow> PremiumVideoStreamHandler \<Rightarrow> World
     \<Rightarrow> JSError option \<times> PremiumVideoStreamHandler \<times> World" where
  "setInputMediaStream playResolved inputMediaStream h w =
     (case setInputMediaStream_begin inputMediaStream h w of
        (Returned e, h1, w1) \<Rightarrow> (e, h1, w1)
      | (AwaitingPlay, h1, w1) \<Rightarrow> setInputMediaStream_resume playResolved h1 w1)"

text \<open>
  What one tick reads from the platform: the video element's current frame size, the bytes
  \<^verbatim>\<open>getImageData\<close> returns for the input canvas, and the time the tick took.
\<close>

record TickInput =
  videoWidth :: nat
  videoHeight :: nat
  frame :: "8 word list"
  processVideoLatency :: real

definition process ::
  "TickInput \<Rightarrow> PremiumVideoStreamHandler \<Rightarrow> World
     \<Rightarrow> JSError option \<times> PremiumVideoStreamHandler \<times> World" where
  "process inp h w =
     (if inputVideoStream h = None then (None, h, w)
      else
        let h1 = (if videoWidth inp \<noteq> 0
                  then h\<lparr>canvasInput :=
                           (canvas_setHeight (Some (videoHeight inp))
                              (canvas_setWidth (Some (videoWidth inp)) (canvasInput h)))
                           \<lparr>drawImageCalls := Suc (drawImageCalls (canvasInput h))\<rparr>\<rparr>
                  else h)
        in case getImageData (frame inp) (width (canvasInput h1)) (height (canvasInput h1)) of
             Inl e \<Rightarrow> (Some (DOMError e), h1, w)
           | Inr inputImageData \<Rightarrow>
               (case driver_apply_in (videoEffectDriver h1) w inputImageData of
                  Inl e \<Rightarrow> (Some (DOMError e), h1, w)
                | Inr transformedImageData \<Rightarrow>
                    let h2 = (if width (canvasOutput h1) \<noteq> videoWidth inp \<and>
                                 height (canvasOutput h1) \<noteq> videoHeight inp
                              then h1\<lparr>canvasOutput :=
                                        canvas_setHeight (Some (videoHeight inp))
                                          (canvas_setWidth (Some (videoWidth inp)) (canvasOutput h1))\<rparr>
                              else h1);
                        h3 = h2\<lparr>canvasOutput := putImageData transformedImageData (canvasOutput h2)\<rparr>;
                        nextFrameDelay = max MIN_FRAME_DELAY
                                           (MS_PER_SECOND / real (framerate h3) - processVideoLatency inp);
                        (t, h4, w4) = setTimeout nextFrameDelay h3 w
                    in (None, h4\<lparr>lastTimeout := Some t\<rparr>, w4)))"

section \<open>The transform device (PremiumVideoTransformDevice)\<close>

text \<open>
  Modelled from the spec: the type Device is imported, not declared in the sources. The spec
  gives it as a physical-device identifier or a raw stream handle; only a stream handle has
  the \<^verbatim>\<open>id\<close> property that \<^verbatim>\<open>onOutputStreamDisconnect\<close> tests.
\<close>

datatype Device = Physical string | StreamHandle stream_ref

text \<open>
  The device's own \<^verbatim>\<open>videoEffectDriver\<close> field is named \<open>deviceVideoEffectDriver\<close> here,
  apart from the handler's field of the same name.
\<close>

record PremiumVideoTransformDevice =
  inputMediaStream :: "stream_ref option"
  premiumVideoStreamHandler :: PremiumVideoStreamHandler
  device :: Device
  deviceVideoEffectDriver :: PremiumVideoEffectDriver

definition new_PremiumVideoTransformDevice ::
  "Device \<Rightarrow> PremiumVideoEffectDriver \<Rightarrow> World \<Rightarrow> PremiumVideoTransformDevice \<times> World" where
  "new_PremiumVideoTransformDevice dev drv w =
     (let (h, w1) = new_PremiumVideoStreamHandler drv w
      in (\<lparr>inputMediaStream = None, premiumVideoStreamHandler = h, device = dev,
           deviceVideoEffectDriver = drv\<rparr>, w1))"


definition intrinsicDevice :: "PremiumVideoTransformDevice \<Rightarrow> Device" where
  "intrinsicDevice d = device d"




definition chooseNewInnerDevice ::
  "Device \<Rightarrow> PremiumVideoTransformDevice \<Rightarrow> World \<Rightarrow> PremiumVideoTransformDevice \<times> World" where
  "chooseNewInnerDevice newDevice d w =
     new_PremiumVideoTransformDevice newDevice (deviceVideoEffectDriver d) w"

definition getInnerDevice :: "PremiumVideoTransformDevice \<Rightarrow> Device" where
  "getInnerDevice d = device d"

section \<open>The handler under the platform's event loop\<close>

text \<open>
  The handler is single-threaded: the platform runs one callback or one call at a time.
  A pending timeout may fire, which removes it and runs \<^verbatim>\<open>process\<close>; the video element may
  announce its metadata, which runs \<^verbatim>\<open>process\<close> if it is registered and a source is bound;
  and the owner may call the handler's methods. A rejected \<^verbatim>\<open>process\<close> is nobody's to
  catch, so its error is dropped and what it did before remains. The delay of a timeout
  decides only when it fires: here a pending timeout may fire at any later step. The event
  \<open>CallSetInputMediaStream\<close> is the whole call with nothing running while it waits for
  \<^verbatim>\<open>play()\<close>; where something does, the call is its two parts, \<open>setInputMediaStream_begin\<close>
  and \<open>setInputMediaStream_resume\<close>, with the events in between.
\<close>

datatype Event =
    TimeoutFires timeout_id TickInput
  | LoadedMetadata TickInput
  | CallStop
  | CallSetInputMediaStream bool "stream_ref option"
  | CallGetActiveOutputMediaStream

fun step ::
  "Event \<Rightarrow> PremiumVideoStreamHandler \<times> World \<Rightarrow> PremiumVideoStreamHandler \<times> World" where
  "step (TimeoutFires t inp) (h, w) =
     (if t \<in> set (map fst (pendingTimeouts h))
      then (let (e, h1, w1) = process inp (clearTimeout t h) w in (h1, w1))
      else (h, w))"
| "step (LoadedMetadata inp) (h, w) =
     (if loadedmetadataListener (videoInput h) \<and> srcObject (videoInput h) \<noteq> None
      then (let (e, h1, w1) = process inp h w in (h1, w1))
      else (h, w))"
| "step CallStop (h, w) = stop h w"
| "step (CallSetInputMediaStream playResolved s) (h, w) =
     (let (e, h1, w1) = setInputMediaStream playResolved s h w in (h1, w1))"
| "step CallGetActiveOutputMediaStream (h, w) =
     (let (out, h1, w1) = getActiveOutputMediaStream h w in (h1, w1))"

definition run ::
  "Event list \<Rightarrow> PremiumVideoStreamHandler \<times> World \<Rightarrow> PremiumVideoStreamHandler \<times> World" where
  "run evs st = fold step evs st"

text \<open>How often the sink surface was written to.\<close>

definition sinkWrites :: "PremiumVideoStreamHandler \<times> World \<Rightarrow> nat" where
  "sinkWrites st = length (putImageDataCalls (canvasOutput (fst st)))"

definition pendingHandles :: "PremiumVideoStreamHandler \<times> World \<Rightarrow> timeout_id list" where
  "pendingHandles st = map fst (pendingTimeouts (fst st))"

section \<open>Concrete inputs\<close>

definition exampleFrame :: ImageData where
  "exampleFrame = \<lparr>width = 1, height = 1, data = [1, 2, 3, 4]\<rparr>"

text \<open>
  A small world: camera A (stream 0: a 2x2 video track and a microphone track), camera B
  (stream 1: a 2x1 video track, no audio), an audio-only stream 2, and stream 3, a captured
  output that still holds the audio track of stream 2.
\<close>

definition exampleTracks :: "track_ref \<Rightarrow> MediaStreamTrack" where
  "exampleTracks =
     (\<lambda>_. \<lparr>kind = Audio, readyState = Ended, settingsWidth = None, settingsHeight = None\<rparr>)
       (0 := \<lparr>kind = Video, readyState = Live, settingsWidth = Some 2, settingsHeight = Some 2\<rparr>,
        1 := \<lparr>kind = Audio, readyState = Live, settingsWidth = None, settingsHeight = None\<rparr>,
        2 := \<lparr>kind = Video, readyState = Live, settingsWidth = Some 2, settingsHeight = Some 1\<rparr>,
        3 := \<lparr>kind = Audio, readyState = Live, settingsWidth = None, settingsHeight = None\<rparr>,
        4 := \<lparr>kind = Video, readyState = Live, settingsWidth = Some 300, settingsHeight = Some 150\<rparr>)"

definition exampleWorld :: World where
  "exampleWorld =
     \<lparr>tracks = exampleTracks,
      streams = (\<lambda>_. [])(0 := [0, 1], 1 := [2], 2 := [3], 3 := [4, 3]),
      nextTrack = 5, nextStream = 4,
      configs = (\<lambda>_. initialEffectConfig),
      nextTimeout = 1, logged = []\<rparr>"

definition exampleDriver :: PremiumVideoEffectDriver where
  "exampleDriver = \<lparr>config = 0\<rparr>"

text \<open>A handler whose output is the captured stream 3, with no input and with camera A bound.\<close>

definition exampleHandler :: PremiumVideoStreamHandler where
  "exampleHandler =
     \<lparr>framerate = DEFAULT_FRAMERATE, lastTimeOut = None, lastTimeout = None,
      videoInput = createElement_video, canvasInput = createElement_canvas,
      inputVideoStream = None, canvasOutput = createElement_canvas,
      outputMediaStream = 3, videoEffectDriver = exampleDriver, pendingTimeouts = []\<rparr>"

definition exampleBound :: PremiumVideoStreamHandler where
  "exampleBound = exampleHandler\<lparr>inputVideoStream := Some 0\<rparr>"

text \<open>
  A handler as the constructor makes it, and two ticks: one while the source delivers 2x2
  frames, one while it delivers 2x1 frames.
\<close>

definition freshHandler :: "PremiumVideoStreamHandler \<times> World" where
  "freshHandler = new_PremiumVideoStreamHandler exampleDriver exampleWorld"

definition tickA :: TickInput where
  "tickA = \<lparr>videoWidth = 2, videoHeight = 2, frame = replicate 16 0, processVideoLatency = 5\<rparr>"

definition tickB :: TickInput where
  "tickB = \<lparr>videoWidth = 2, videoHeight = 1, frame = replicate 8 0, processVideoLatency = 5\<rparr>"

text \<open>Camera A bound, the output canvas sized 2x2 from the track's settings.\<close>

definition exampleSized :: PremiumVideoStreamHandler where
  "exampleSized = exampleBound\<lparr>canvasOutput := createElement_canvas\<lparr>width := 2, height := 2\<rparr>\<rparr>"

text \<open>
  Three moments of one history: after the first tick on camera A (its timeout pending),
  after \<^verbatim>\<open>stop()\<close>, and after camera B was bound and announced its metadata.
\<close>

definition ticking :: "PremiumVideoStreamHandler \<times> World" where
  "ticking = run [CallSetInputMediaStream True (Some 0), LoadedMetadata tickA] freshHandler"

definition stopped :: "PremiumVideoStreamHandler \<times> World" where
  "stopped = step CallStop ticking"

definition rebound :: "PremiumVideoStreamHandler \<times> World" where
  "rebound = run [CallSetInputMediaStream True (Some 1), LoadedMetadata tickB] stopped"

text \<open>The first tick done on camera A, and a call binding camera B waiting for \<^verbatim>\<open>play()\<close>.\<close>

definition suspended :: "PremiumVideoStreamHandler \<times> World" where
  "suspended = snd (setInputMediaStream_begin (Some 1) (fst ticking) (snd ticking))"

text \<open>A device on a physical camera, its handler bound to camera A, which it also recorded.\<close>

definition exampleDevice :: PremiumVideoTransformDevice where
  "exampleDevice =
     \<lparr>inputMediaStream = Some 0, premiumVideoStreamHandler = exampleBound,
      device = Physical ''camera-A'', deviceVideoEffectDriver = exampleDriver\<rparr>"

section \<open>Properties of the effect driver\<close>

lemma toUint8Clamp_uint: "toUint8Clamp (uint (b :: 8 word)) = b"
proof -
  have "uint b < 256" using uint_lt2p [of b] by simp
  then show ?thesis by (simp add: toUint8Clamp_def)
qed

lemma toUint8Clamp_max: "toUint8Clamp MAX_PIXEL_VAL = 255"
  by (simp add: toUint8Clamp_def MAX_PIXEL_VAL_def)

lemma length_map_Uint8ClampedArray: "length (map_Uint8ClampedArray f xs) = length xs"
  by (simp add: map_Uint8ClampedArray_def)

lemma nth_map_Uint8ClampedArray:
  "idx < length xs \<Longrightarrow> map_Uint8ClampedArray f xs ! idx = toUint8Clamp (f (uint (xs ! idx)) idx)"
  by (simp add: map_Uint8ClampedArray_def)

lemma new_ImageData_wellformed:
  assumes "0 < sw" and "0 < sh" and "length d = sw * sh * 4"
  shows "new_ImageData d sw sh = Inr \<lparr>width = sw, height = sh, data = d\<rparr>"
  using assms by (simp add: new_ImageData_def)

lemma transformData_byte:
  "toUint8Clamp (transformData cfg (uint b) idx) =
     (if redShiftEnabled cfg \<and> idx mod 4 = 0 then 255
      else if blueShiftEnabled cfg \<and> idx mod 4 = 2 then 255
      else b)"
  by (simp add: transformData_def CHANNEL_COUNT_def toUint8Clamp_uint toUint8Clamp_max)

lemma map_Uint8ClampedArray_identity:
  assumes "\<not> blueShiftEnabled cfg" and "\<not> redShiftEnabled cfg"
  shows "map_Uint8ClampedArray (transformData cfg) xs = xs"
proof (rule nth_equalityI)
  show "length (map_Uint8ClampedArray (transformData cfg) xs) = length xs"
    by (rule length_map_Uint8ClampedArray)
next
  fix i assume "i < length (map_Uint8ClampedArray (transformData cfg) xs)"
  then have "i < length xs" by (simp add: length_map_Uint8ClampedArray)
  then show "map_Uint8ClampedArray (transformData cfg) xs ! i = xs ! i"
    using assms by (simp add: nth_map_Uint8ClampedArray transformData_byte)
qed

text \<open>
  C4. For every ImageData (positive dimensions, \<open>width * height * 4\<close> bytes) and every
  setting of the two flags, \<^verbatim>\<open>apply\<close> returns an image of the same width and height whose
  byte at each index is 255 if red shift is on and the index is 0 modulo 4, else 255 if blue
  shift is on and the index is 2 modulo 4, else the input byte; no index meets both
  conditions, so the flags act independently.
\<close>

theorem apply_transforms_each_byte:
  assumes "isImageData img"
  shows "\<exists>out. driver_apply cfg img = Inr out
           \<and> width out = width img \<and> height out = height img
           \<and> length (data out) = length (data img)
           \<and> (\<forall>idx < length (data img).
                 data out ! idx =
                   (if redShiftEnabled cfg \<and> idx mod 4 = 0 then 255
                    else if blueShiftEnabled cfg \<and> idx mod 4 = 2 then 255
                    else data img ! idx)
               \<and> \<not> (idx mod 4 = 0 \<and> idx mod 4 = 2))"
proof -
  let ?raw = "map_Uint8ClampedArray (transformData cfg) (data img)"
  have len: "length ?raw = width img * height img * 4"
    using assms by (simp add: length_map_Uint8ClampedArray isImageData_def)
  have "driver_apply cfg img = Inr \<lparr>width = width img, height = height img, data = ?raw\<rparr>"
    unfolding driver_apply_def Let_def
    using assms len by (intro new_ImageData_wellformed) (simp_all add: isImageData_def)
  moreover have "\<forall>idx < length (data img).
      ?raw ! idx = (if redShiftEnabled cfg \<and> idx mod 4 = 0 then 255
                    else if blueShiftEnabled cfg \<and> idx mod 4 = 2 then 255
                    else data img ! idx)"
    by (simp add: nth_map_Uint8ClampedArray transformData_byte)
  moreover have "\<forall>idx < length (data img). \<not> (idx mod 4 = 0 \<and> idx mod 4 = 2)"
    by presburger
  ultimately show ?thesis
    by (auto simp: length_map_Uint8ClampedArray)
qed

theorem apply_transforms_each_byte_witness:
  "isImageData exampleFrame
   \<and> (\<exists>out. driver_apply \<lparr>blueShiftEnabled = True, redShiftEnabled = True\<rparr> exampleFrame = Inr out
        \<and> data out ! 0 = 255 \<and> data out ! 1 = 2 \<and> data out ! 2 = 255 \<and> data out ! 3 = 4)"
proof -
  have wf: "isImageData exampleFrame"
    by (simp add: isImageData_def exampleFrame_def)
  from apply_transforms_each_byte [OF wf, of "\<lparr>blueShiftEnabled = True, redShiftEnabled = True\<rparr>"]
  obtain out where o: "driver_apply \<lparr>blueShiftEnabled = True, redShiftEnabled = True\<rparr> exampleFrame = Inr out"
    and b: "\<forall>idx < length (data exampleFrame).
                 data out ! idx =
                   (if redShiftEnabled \<lparr>blueShiftEnabled = True, redShiftEnabled = True\<rparr> \<and> idx mod 4 = 0 then 255
                    else if blueShiftEnabled \<lparr>blueShiftEnabled = True, redShiftEnabled = True\<rparr> \<and> idx mod 4 = 2 then 255
                    else data exampleFrame ! idx)
               \<and> \<not> (idx mod 4 = 0 \<and> idx mod 4 = 2)"
    by blast
  have "data out ! 0 = 255" "data out ! 1 = 2" "data out ! 2 = 255" "data out ! 3 = 4"
    using b [rule_format, of 0] b [rule_format, of 1] b [rule_format, of 2] b [rule_format, of 3]
    by (simp_all add: exampleFrame_def)
  with wf o show ?thesis by blast
qed

text \<open>
  C5. With both flags off, \<^verbatim>\<open>apply\<close> returns an image byte-for-byte identical to its input.
\<close>

theorem apply_identity_when_flags_off:
  assumes "isImageData img" and "\<not> blueShiftEnabled cfg" and "\<not> redShiftEnabled cfg"
  shows "driver_apply cfg img = Inr img"
proof -
  have "map_Uint8ClampedArray (transformData cfg) (data img) = data img"
    using assms(2,3) by (rule map_Uint8ClampedArray_identity)
  then have "driver_apply cfg img = new_ImageData (data img) (width img) (height img)"
    by (simp add: driver_apply_def)
  also have "\<dots> = Inr \<lparr>width = width img, height = height img, data = data img\<rparr>"
    using assms(1) by (intro new_ImageData_wellformed) (simp_all add: isImageData_def)
  finally show ?thesis by simp
qed

theorem apply_identity_when_flags_off_witness:
  "isImageData exampleFrame \<and> \<not> blueShiftEnabled initialEffectConfig
   \<and> \<not> redShiftEnabled initialEffectConfig
   \<and> driver_apply initialEffectConfig exampleFrame = Inr \<lparr>width = 1, height = 1, data = [1, 2, 3, 4]\<rparr>"
proof -
  have wf: "isImageData exampleFrame"
    by (simp add: isImageData_def exampleFrame_def)
  have b: "\<not> blueShiftEnabled initialEffectConfig" and r: "\<not> redShiftEnabled initialEffectConfig"
    by (simp_all add: initialEffectConfig_def)
  show ?thesis
    using wf b r apply_identity_when_flags_off [OF wf b r] by (simp add: exampleFrame_def)
qed

section \<open>Properties of the stream handler\<close>

lemmas example_defs = exampleWorld_def exampleTracks_def exampleHandler_def exampleBound_def
  exampleDriver_def createElement_video_def createElement_canvas_def DEFAULT_FRAMERATE_def
  initialEffectConfig_def

text \<open>
  C6. Given a stream with no video track, \<^verbatim>\<open>setInputMediaStream\<close> logs an error and
  returns normally: the handler (bound input, loop, canvases, output handle) is the same
  value as before and the world differs only by the log entry, so every stream keeps its
  tracks.
\<close>

theorem setInputMediaStream_without_video_ignored:
  assumes "getVideoTracks w s = []"
  shows "setInputMediaStream playResolved (Some s) h w =
           (None, h, w\<lparr>logged := logged w @
              [(Error, [Txt ''No video tracks in input media stream, ignoring''])]\<rparr>)"
  using assms by (simp add: setInputMediaStream_def setInputMediaStream_begin_def logger_error_def)

theorem setInputMediaStream_without_video_ignored_witness:
  "getVideoTracks exampleWorld 2 = []
   \<and> setInputMediaStream True (Some 2) exampleBound exampleWorld =
       (None, exampleBound, exampleWorld\<lparr>logged :=
          [(Error, [Txt ''No video tracks in input media stream, ignoring''])]\<rparr>)"
proof -
  have v: "getVideoTracks exampleWorld 2 = []"
    by (simp add: getVideoTracks_def exampleWorld_def exampleTracks_def)
  show ?thesis
    using v setInputMediaStream_without_video_ignored [OF v, of True exampleBound]
    by (simp add: exampleWorld_def)
qed

lemma getActiveOutputMediaStream_active:
  assumes "isOutputMediaStreamActive h w"
  shows "getActiveOutputMediaStream h w = (outputMediaStream h, h, w)"
  using assms by (simp add: getActiveOutputMediaStream_def)

text \<open>
  C7. Once the output handle is active, two consecutive calls of
  \<^verbatim>\<open>getActiveOutputMediaStream\<close> return the same handle, the one the handler already holds,
  and neither call changes the handler or the world: no stream or track is derived from
  the sink.
\<close>

theorem getActiveOutputMediaStream_idempotent:
  assumes "isOutputMediaStreamActive h w"
  shows "case getActiveOutputMediaStream h w of (out1, h1, w1) \<Rightarrow>
           (case getActiveOutputMediaStream h1 w1 of (out2, h2, w2) \<Rightarrow>
              out1 = outputMediaStream h \<and> out2 = out1
              \<and> h1 = h \<and> w1 = w \<and> h2 = h \<and> w2 = w)"
  using assms by (simp add: getActiveOutputMediaStream_active)

theorem getActiveOutputMediaStream_idempotent_witness:
  "isOutputMediaStreamActive exampleBound exampleWorld
   \<and> getActiveOutputMediaStream exampleBound exampleWorld = (3, exampleBound, exampleWorld)"
proof -
  have a: "isOutputMediaStreamActive exampleBound exampleWorld"
    by (simp add: isOutputMediaStreamActive_def active_def example_defs)
  have o: "outputMediaStream exampleBound = 3"
    by (simp add: example_defs)
  show ?thesis
    using a o getActiveOutputMediaStream_idempotent [OF a]
    by (auto split: prod.splits)
qed


lemma tracks_logger_info [simp]: "tracks (logger_info msg w) = tracks w"
  by (simp add: logger_info_def)

lemma streams_logger_info [simp]: "streams (logger_info msg w) = streams w"
  by (simp add: logger_info_def)

lemma tracks_removeTrack [simp]: "tracks (removeTrack s t w) = tracks w"
  by (simp add: removeTrack_def)

lemma tracks_addTrack [simp]: "tracks (addTrack s t w) = tracks w"
  by (simp add: addTrack_def)

lemma streams_removeTrack:
  "streams (removeTrack s t w) = (streams w)(s := removeAll t (streams w s))"
  by (simp add: removeTrack_def)

lemma fold_removeTrack_tracks:
  "tracks (fold (\<lambda>t w'. removeTrack out t (logger_info (msg t) w')) rs w) = tracks w"
  by (induction rs arbitrary: w) simp_all

lemma fold_addTrack_tracks:
  "tracks (fold (\<lambda>t w'. addTrack out t (logger_info (msg t) w')) as w) = tracks w"
  by (induction as arbitrary: w) simp_all

lemma fold_removeTrack_streams:
  "streams (fold (\<lambda>t w'. removeTrack out t (logger_info (msg t) w')) rs w) =
     (streams w)(out := filter (\<lambda>t. t \<notin> set rs) (streams w out))"
proof (induction rs arbitrary: w)
  case Nil
  show ?case by simp
next
  case (Cons r rs)
  have "filter (\<lambda>t. t \<notin> set rs) (removeAll r xs) =
        filter (\<lambda>t. t \<notin> set (r # rs)) xs" for xs
    by (induction xs) auto
  then show ?case
    by (simp add: Cons.IH streams_removeTrack fun_eq_iff)
qed

lemma fold_addTrack_streams:
  "\<exists>ys. streams (fold (\<lambda>t w'. addTrack out t (logger_info (msg t) w')) as w) =
           (streams w)(out := streams w out @ ys)
        \<and> set ys \<subseteq> set as \<and> set as \<subseteq> set (streams w out) \<union> set ys"
proof (induction as arbitrary: w)
  case Nil
  show ?case by (intro exI [of _ "[]"]) simp
next
  case (Cons a as)
  let ?w1 = "addTrack out a (logger_info (msg a) w)"
  from Cons.IH [of ?w1] obtain ys where
    ys: "streams (fold (\<lambda>t w'. addTrack out t (logger_info (msg t) w')) as ?w1) =
           (streams ?w1)(out := streams ?w1 out @ ys)"
    and sub: "set ys \<subseteq> set as" and sup: "set as \<subseteq> set (streams ?w1 out) \<union> set ys"
    by blast
  show ?case
  proof (cases "a \<in> set (streams w out)")
    case True
    then have "streams ?w1 = streams w" by (simp add: addTrack_def)
    with ys sub sup True show ?thesis
      by (intro exI [of _ ys]) auto
  next
    case False
    then have "streams ?w1 = (streams w)(out := streams w out @ [a])"
      by (simp add: addTrack_def)
    with ys sub sup show ?thesis
      by (intro exI [of _ "a # ys"]) auto
  qed
qed

lemma getAudioTracks_video_partition:
  "filter (\<lambda>t. t \<notin> set (getAudioTracks w s)) (streams w s) = getVideoTracks w s"
proof -
  have "\<And>t. t \<in> set (streams w s) \<Longrightarrow>
          (t \<notin> set (getAudioTracks w s)) = (kind (tracks w t) = Video)"
    by (auto simp: getAudioTracks_def) (metis TrackKind.exhaust)
  then show ?thesis
    unfolding getVideoTracks_def by (intro filter_cong) auto
qed

text \<open>
  C8. Audio synchronisation only logs when the output handle is not active or no input is
  bound. When the output is active and an input is bound, it leaves the handler and every
  track as they are, changes no stream but the output, keeps the output's video tracks, and
  makes the output's audio tracks exactly the audio tracks the input has now: those the
  input had before whenever input and output are different streams, with no track of an
  earlier input left over.
\<close>

theorem cloneInputAudioTracksToOutput_synchronises:
  "(\<not> isOutputMediaStreamActive h w \<or> inputVideoStream h = None \<longrightarrow>
      cloneInputAudioTracksToOutput h w =
        (h, w\<lparr>logged := logged w @
           [(Info, [Txt ''Not cloning input audio tracks to output, do not have media streams ready''])]\<rparr>))
   \<and> (isOutputMediaStreamActive h w \<and> inputVideoStream h = Some inp \<longrightarrow>
        (case cloneInputAudioTracksToOutput h w of (h', w') \<Rightarrow>
           h' = h \<and> tracks w' = tracks w
           \<and> set (getAudioTracks w' (outputMediaStream h)) = set (getAudioTracks w' inp)
           \<and> getVideoTracks w' (outputMediaStream h) = getVideoTracks w (outputMediaStream h)
           \<and> (\<forall>s. s \<noteq> outputMediaStream h \<longrightarrow> streams w' s = streams w s)
           \<and> (inp \<noteq> outputMediaStream h \<longrightarrow>
                set (getAudioTracks w' (outputMediaStream h)) = set (getAudioTracks w inp))))"
proof (intro conjI impI)
  assume "\<not> isOutputMediaStreamActive h w \<or> inputVideoStream h = None"
  then show "cloneInputAudioTracksToOutput h w =
        (h, w\<lparr>logged := logged w @
           [(Info, [Txt ''Not cloning input audio tracks to output, do not have media streams ready''])]\<rparr>)"
    by (auto simp: cloneInputAudioTracksToOutput_def logger_info_def)
next
  assume a: "isOutputMediaStreamActive h w \<and> inputVideoStream h = Some inp"
  let ?out = "outputMediaStream h"
  let ?rm = "\<lambda>audioTrack w'. removeTrack ?out audioTrack
               (logger_info [Txt ''Removing audio track '', TrackId audioTrack,
                             Txt '' from output stream''] w')"
  let ?ad = "\<lambda>audioTrack w'. addTrack ?out audioTrack
               (logger_info [Txt ''Adding audio track '', TrackId audioTrack,
                             Txt '' to output stream''] w')"
  let ?w1 = "fold ?rm (getAudioTracks w ?out) w"
  let ?w2 = "fold ?ad (getAudioTracks ?w1 inp) ?w1"
  have res: "cloneInputAudioTracksToOutput h w = (h, ?w2)"
    using a by (simp add: cloneInputAudioTracksToOutput_def Let_def)
  have t1: "tracks ?w1 = tracks w"
    by (rule fold_removeTrack_tracks)
  have t2: "tracks ?w2 = tracks w"
    using t1 by (simp add: fold_addTrack_tracks)
  have s1: "streams ?w1 = (streams w)(?out := getVideoTracks w ?out)"
    by (simp add: fold_removeTrack_streams getAudioTracks_video_partition)
  obtain ys where s2: "streams ?w2 = (streams ?w1)(?out := streams ?w1 ?out @ ys)"
    and sub: "set ys \<subseteq> set (getAudioTracks ?w1 inp)"
    and sup: "set (getAudioTracks ?w1 inp) \<subseteq> set (streams ?w1 ?out) \<union> set ys"
    using fold_addTrack_streams [where out = ?out and as = "getAudioTracks ?w1 inp" and w = ?w1
        and msg = "\<lambda>t. [Txt ''Adding audio track '', TrackId t, Txt '' to output stream'']"]
    by blast
  have out2: "streams ?w2 ?out = getVideoTracks w ?out @ ys"
    using s1 s2 by simp
  have other: "\<And>s. s \<noteq> ?out \<Longrightarrow> streams ?w2 s = streams w s"
    using s1 s2 by simp
  have ys_audio: "\<And>t. t \<in> set ys \<Longrightarrow> kind (tracks w t) = Audio"
    using sub t1 by (auto simp: getAudioTracks_def)
  have aud1: "set (getAudioTracks ?w1 inp) \<subseteq> set ys"
  proof
    fix t assume t: "t \<in> set (getAudioTracks ?w1 inp)"
    then have "kind (tracks w t) = Audio" using t1 by (simp add: getAudioTracks_def)
    then have "t \<notin> set (streams ?w1 ?out)" using s1 by (simp add: getVideoTracks_def)
    with t sup show "t \<in> set ys" by blast
  qed
  have audio_out: "getAudioTracks ?w2 ?out = ys"
    using out2 t2 ys_audio by (simp add: getAudioTracks_def getVideoTracks_def filter_id_conv)
  have video_out: "getVideoTracks ?w2 ?out = getVideoTracks w ?out"
    using out2 t2 ys_audio by (auto simp: getVideoTracks_def filter_empty_conv)
  have audio_inp1: "inp \<noteq> ?out \<Longrightarrow> getAudioTracks ?w1 inp = getAudioTracks w inp"
    using s1 t1 by (simp add: getAudioTracks_def)
  have audio_inp2: "inp \<noteq> ?out \<Longrightarrow> getAudioTracks ?w2 inp = getAudioTracks w inp"
    using other t2 by (simp add: getAudioTracks_def)
  have same: "set (getAudioTracks ?w2 ?out) = set (getAudioTracks ?w2 inp)"
  proof (cases "inp = ?out")
    case True
    then show ?thesis by simp
  next
    case False
    then show ?thesis
      using audio_out audio_inp1 audio_inp2 sub aud1 by auto
  qed
  have orig: "inp \<noteq> ?out \<Longrightarrow> set (getAudioTracks ?w2 ?out) = set (getAudioTracks w inp)"
    using same audio_inp2 by simp
  show "case cloneInputAudioTracksToOutput h w of (h', w') \<Rightarrow>
           h' = h \<and> tracks w' = tracks w
           \<and> set (getAudioTracks w' (outputMediaStream h)) = set (getAudioTracks w' inp)
           \<and> getVideoTracks w' (outputMediaStream h) = getVideoTracks w (outputMediaStream h)
           \<and> (\<forall>s. s \<noteq> outputMediaStream h \<longrightarrow> streams w' s = streams w s)
           \<and> (inp \<noteq> outputMediaStream h \<longrightarrow>
                set (getAudioTracks w' (outputMediaStream h)) = set (getAudioTracks w inp))"
    unfolding res using t2 same video_out other orig by simp
qed


theorem cloneInputAudioTracksToOutput_synchronises_witness:
  "inputVideoStream exampleHandler = None
   \<and> cloneInputAudioTracksToOutput exampleHandler exampleWorld =
       (exampleHandler, exampleWorld\<lparr>logged :=
          [(Info, [Txt ''Not cloning input audio tracks to output, do not have media streams ready''])]\<rparr>)
   \<and> isOutputMediaStreamActive exampleBound exampleWorld
   \<and> inputVideoStream exampleBound = Some 0
   \<and> getAudioTracks exampleWorld 3 = [3]
   \<and> set (getAudioTracks (snd (cloneInputAudioTracksToOutput exampleBound exampleWorld)) 3) = {1}"
proof -
  have n: "inputVideoStream exampleHandler = None"
    by (simp add: example_defs)
  have a: "isOutputMediaStreamActive exampleBound exampleWorld"
    by (simp add: isOutputMediaStreamActive_def active_def example_defs)
  have b: "inputVideoStream exampleBound = Some 0"
    by (simp add: example_defs)
  have o: "outputMediaStream exampleBound = 3"
    by (simp add: example_defs)
  have stale: "getAudioTracks exampleWorld 3 = [3]"
    by (simp add: getAudioTracks_def example_defs)
  have au: "getAudioTracks exampleWorld 0 = [1]"
    by (simp add: getAudioTracks_def example_defs)
  have l: "logged exampleWorld = []"
    by (simp add: example_defs)
  have 1: "cloneInputAudioTracksToOutput exampleHandler exampleWorld =
       (exampleHandler, exampleWorld\<lparr>logged :=
          [(Info, [Txt ''Not cloning input audio tracks to output, do not have media streams ready''])]\<rparr>)"
    using cloneInputAudioTracksToOutput_synchronises [of exampleHandler exampleWorld] n l by simp
  have 2: "set (getAudioTracks (snd (cloneInputAudioTracksToOutput exampleBound exampleWorld)) 3) = {1}"
    using cloneInputAudioTracksToOutput_synchronises [of exampleBound exampleWorld 0] a b o au
    by (auto split: prod.splits)
  from n 1 a b stale 2 show ?thesis by blast
qed

section \<open>Ticks, timeouts and the sink\<close>

lemmas handler_defs = run_def sinkWrites_def pendingHandles_def freshHandler_def
  new_PremiumVideoStreamHandler_def new_MediaStream_def setInputMediaStream_def
  setInputMediaStream_begin_def setInputMediaStream_resume_def
  startVideoOnMediaStream_begin_def startVideoOnMediaStream_resume_def
  canvas_setWidth_def canvas_setHeight_def reflectedDimension_def
  cloneInputAudioTracksToOutput_def isOutputMediaStreamActive_def
  active_def getVideoTracks_def getAudioTracks_def getTracks_def toUnsignedLong_def
  logger_info_def logger_warn_def logger_error_def process_def getImageData_def
  driver_apply_in_def driver_apply_def new_ImageData_def map_Uint8ClampedArray_identity
  putImageData_def setTimeout_def clearTimeout_def stop_def destroyInputMediaAndBuffers_def
  track_stop_def MIN_FRAME_DELAY_def MS_PER_SECOND_def tickA_def tickB_def exampleSized_def
  ticking_def stopped_def rebound_def Let_def

subsection \<open>What a tick does to the sink's size\<close>

lemma process_sink_size:
  assumes "process inp h w = (None, h', w')" and "inputVideoStream h \<noteq> None"
  shows "(width (canvasOutput h'), height (canvasOutput h')) =
           (if width (canvasOutput h) \<noteq> videoWidth inp \<and> height (canvasOutput h) \<noteq> videoHeight inp
            then (reflectedDimension 300 (toUnsignedLong (Some (videoWidth inp))),
                  reflectedDimension 150 (toUnsignedLong (Some (videoHeight inp))))
            else (width (canvasOutput h), height (canvasOutput h)))"
  using assms
  by (auto simp: process_def setTimeout_def putImageData_def canvas_setWidth_def
        canvas_setHeight_def Let_def split: sum.splits if_splits)

text \<open>
  C3. The specification asks that a tick resize the sink whenever its width or its height
  differs from the source's. The code resizes only when both differ. Here the sink is 2x2 and the
  source delivers 2x1 frames: the tick returns normally, writes a 2x1 image, and the sink
  is still 2x2.
\<close>

theorem process_keeps_sink_size_when_only_height_differs:
  "inputVideoStream exampleSized = Some 0
   \<and> (width (canvasOutput exampleSized), height (canvasOutput exampleSized)) = (2, 2)
   \<and> (videoWidth tickB, videoHeight tickB) = (2, 1)
   \<and> fst (process tickB exampleSized exampleWorld) = None
   \<and> (width (canvasOutput (fst (snd (process tickB exampleSized exampleWorld)))),
       height (canvasOutput (fst (snd (process tickB exampleSized exampleWorld))))) = (2, 2)
   \<and> putImageDataCalls (canvasOutput (fst (snd (process tickB exampleSized exampleWorld)))) =
       [\<lparr>width = 2, height = 1, data = replicate 8 0\<rparr>]"
  by (simp add: handler_defs example_defs)

subsection \<open>The timeout handle that stop() never sees\<close>

lemma lastTimeOut_process: "lastTimeOut (fst (snd (process inp h w))) = lastTimeOut h"
  by (simp add: process_def setTimeout_def Let_def split: sum.splits)

lemma cloneInputAudioTracksToOutput_handler: "fst (cloneInputAudioTracksToOutput h w) = h"
  by (simp add: cloneInputAudioTracksToOutput_def Let_def split: option.splits)

lemma stop_without_handle:
  assumes "lastTimeOut h = None"
  shows "pendingTimeouts (fst (stop h w)) = pendingTimeouts h"
    and "lastTimeOut (fst (stop h w)) = None"
  using assms by (simp_all add: stop_def destroyInputMediaAndBuffers_def Let_def)

lemma lastTimeOut_startVideoOnMediaStream_begin:
  "lastTimeOut (snd (startVideoOnMediaStream_begin s h w)) = lastTimeOut h"
  by (simp add: startVideoOnMediaStream_begin_def Let_def split: option.splits list.splits)

lemma lastTimeOut_setInputMediaStream_begin:
  assumes "lastTimeOut h = None"
  shows "lastTimeOut (fst (snd (setInputMediaStream_begin s h w))) = None"
proof (cases s)
  case None
  then show ?thesis
    using stop_without_handle(2) [OF assms, of w]
    by (simp add: setInputMediaStream_begin_def case_prod_beta)
next
  case (Some x)
  have "lastTimeOut (snd (startVideoOnMediaStream_begin x (h\<lparr>inputVideoStream := Some x\<rparr>) w)) = None"
    using assms by (simp add: lastTimeOut_startVideoOnMediaStream_begin)
  then show ?thesis
    using Some assms
    by (auto simp: setInputMediaStream_begin_def Let_def split: prod.splits option.splits)
qed

lemma setInputMediaStream_resume_handler:
  "fst (snd (setInputMediaStream_resume playResolved h w)) = h"
  by (simp add: setInputMediaStream_resume_def Let_def case_prod_beta
        cloneInputAudioTracksToOutput_handler)

lemma lastTimeOut_setInputMediaStream:
  assumes "lastTimeOut h = None"
  shows "lastTimeOut (fst (snd (setInputMediaStream p s h w))) = None"
proof -
  obtain pr h1 w1 where b: "setInputMediaStream_begin s h w = (pr, h1, w1)"
    by (cases "setInputMediaStream_begin s h w") auto
  with lastTimeOut_setInputMediaStream_begin [OF assms, of s w]
  have "lastTimeOut h1 = None" by simp
  then show ?thesis
    using b by (cases pr) (simp_all add: setInputMediaStream_def setInputMediaStream_resume_handler)
qed

lemma lastTimeOut_getActiveOutputMediaStream:
  "lastTimeOut (fst (snd (getActiveOutputMediaStream h w))) = lastTimeOut h"
  by (simp add: getActiveOutputMediaStream_def captureStream_def Let_def case_prod_beta
        cloneInputAudioTracksToOutput_handler)

lemma step_keeps_no_handle:
  assumes "lastTimeOut (fst st) = None"
  shows "lastTimeOut (fst (step e st)) = None"
proof (cases st)
  case (Pair h w)
  with assms have n: "lastTimeOut h = None" by simp
  show ?thesis
  proof (cases e)
    case (TimeoutFires t inp)
    then show ?thesis
      using Pair n lastTimeOut_process [of inp "clearTimeout t h" w]
      by (simp add: case_prod_beta clearTimeout_def)
  next
    case (LoadedMetadata inp)
    then show ?thesis
      using Pair n lastTimeOut_process [of inp h w] by (simp add: case_prod_beta)
  next
    case CallStop
    then show ?thesis
      using Pair stop_without_handle(2) [OF n] by simp
  next
    case (CallSetInputMediaStream p s)
    then show ?thesis
      using Pair lastTimeOut_setInputMediaStream [OF n] by (simp add: case_prod_beta)
  next
    case CallGetActiveOutputMediaStream
    then show ?thesis
      using Pair n lastTimeOut_getActiveOutputMediaStream [of h w] by (simp add: case_prod_beta)
  qed
qed

lemma run_keeps_no_handle:
  assumes "lastTimeOut (fst st) = None"
  shows "lastTimeOut (fst (run evs st)) = None"
  using assms unfolding run_def
  by (induction evs arbitrary: st) (simp_all add: step_keeps_no_handle)

lemma new_handler_no_handle:
  "lastTimeOut (fst (new_PremiumVideoStreamHandler drv w)) = None"
  by (simp add: new_PremiumVideoStreamHandler_def new_MediaStream_def)

lemma stop_cancels_nothing:
  "pendingHandles (step CallStop (run evs (new_PremiumVideoStreamHandler drv w))) =
     pendingHandles (run evs (new_PremiumVideoStreamHandler drv w))"
proof -
  let ?st = "run evs (new_PremiumVideoStreamHandler drv w)"
  have "lastTimeOut (fst ?st) = None"
    by (rule run_keeps_no_handle) (rule new_handler_no_handle)
  then have "pendingTimeouts (fst (stop (fst ?st) (snd ?st))) = pendingTimeouts (fst ?st)"
    by (rule stop_without_handle(1))
  then show ?thesis
    by (cases ?st) (simp add: pendingHandles_def)
qed

text \<open>
  C1. The specification asks that \<^verbatim>\<open>stop()\<close> cancel the pending invocation of \<^verbatim>\<open>process\<close>,
  so that the chain never writes to the sink again. The tick stores its handle in
  \<^verbatim>\<open>lastTimeout\<close>; \<^verbatim>\<open>stop()\<close> looks in \<^verbatim>\<open>lastTimeOut\<close>, which is never set, and cancels nothing.
  After the first tick timeout 1 is pending, and after \<^verbatim>\<open>stop()\<close> it is still pending. If it
  fires while no input is bound, the tick returns at its guard without writing. Once a new
  input is bound it fires, writes to the sink and reschedules itself beside the new chain.
\<close>

theorem stop_leaves_scheduled_tick_pending:
  "pendingHandles ticking = [1]
   \<and> lastTimeout (fst ticking) = Some 1 \<and> lastTimeOut (fst ticking) = None
   \<and> sinkWrites ticking = 1
   \<and> pendingHandles stopped = [1]
   \<and> pendingHandles (step (TimeoutFires 1 tickA) stopped) = []
   \<and> sinkWrites (step (TimeoutFires 1 tickA) stopped) = 1
   \<and> inputVideoStream (fst rebound) = Some 1
   \<and> pendingHandles rebound = [1, 2]
   \<and> sinkWrites rebound = 2
   \<and> sinkWrites (step (TimeoutFires 1 tickB) rebound) = 3
   \<and> pendingHandles (step (TimeoutFires 1 tickB) rebound) = [2, 3]"
  by (simp add: handler_defs example_defs)

subsection \<open>Binding a new input\<close>

lemma cloneInputAudioTracksToOutput_tracks:
  "tracks (snd (cloneInputAudioTracksToOutput h w)) = tracks w"
  by (simp add: cloneInputAudioTracksToOutput_def Let_def fold_addTrack_tracks
        fold_removeTrack_tracks split: option.splits)

text \<open>
  What a canvas keeps of an assigned dimension: a value over 32 bits wraps, one above
  \<open>2\<^sup>3\<^sup>1 - 1\<close> gives way to the default, \<^verbatim>\<open>undefined\<close> is zero.
\<close>

lemma canvas_dimension_examples:
  "width (canvas_setWidth (Some 4294967297) createElement_canvas) = 1"
  "height (canvas_setHeight (Some 2147483648) createElement_canvas) = 150"
  "width (canvas_setWidth (Some 640) createElement_canvas) = 640"
  "height (canvas_setHeight None createElement_canvas) = 0"
  by (simp_all add: canvas_setWidth_def canvas_setHeight_def reflectedDimension_def
        toUnsignedLong_def createElement_canvas_def)

lemma startVideoOnMediaStream_begin_bound:
  assumes "inputVideoStream h = Some s" and "getVideoTracks w s = t # ts"
  shows "startVideoOnMediaStream_begin s' h w =
           (None,
            h\<lparr>canvasOutput := (canvasOutput h)
                 \<lparr>width := reflectedDimension 300 (toUnsignedLong (settingsWidth (tracks w t))),
                  height := reflectedDimension 150 (toUnsignedLong (settingsHeight (tracks w t)))\<rparr>,
              videoInput := (videoInput h)
                 \<lparr>loadedmetadataListener := True, srcObject := Some s, playsinline := True,
                  loadCalls := Suc (loadCalls (videoInput h)),
                  playCalls := Suc (playCalls (videoInput h))\<rparr>\<rparr>)"
  using assms
  by (simp add: startVideoOnMediaStream_begin_def canvas_setWidth_def canvas_setHeight_def Let_def)

lemma setInputMediaStream_begin_with_video:
  assumes "getVideoTracks w s = t # ts"
  shows "setInputMediaStream_begin (Some s) h w =
           (AwaitingPlay,
            h\<lparr>inputVideoStream := Some s,
              canvasOutput := (canvasOutput h)
                 \<lparr>width := reflectedDimension 300 (toUnsignedLong (settingsWidth (tracks w t))),
                  height := reflectedDimension 150 (toUnsignedLong (settingsHeight (tracks w t)))\<rparr>,
              videoInput := (videoInput h)
                 \<lparr>loadedmetadataListener := True, srcObject := Some s, playsinline := True,
                  loadCalls := Suc (loadCalls (videoInput h)),
                  playCalls := Suc (playCalls (videoInput h))\<rparr>\<rparr>,
            w)"
proof -
  let ?h1 = "h\<lparr>inputVideoStream := Some s\<rparr>"
  have "startVideoOnMediaStream_begin s ?h1 w =
           (None,
            ?h1\<lparr>canvasOutput := (canvasOutput ?h1)
                 \<lparr>width := reflectedDimension 300 (toUnsignedLong (settingsWidth (tracks w t))),
                  height := reflectedDimension 150 (toUnsignedLong (settingsHeight (tracks w t)))\<rparr>,
              videoInput := (videoInput ?h1)
                 \<lparr>loadedmetadataListener := True, srcObject := Some s, playsinline := True,
                  loadCalls := Suc (loadCalls (videoInput ?h1)),
                  playCalls := Suc (playCalls (videoInput ?h1))\<rparr>\<rparr>)"
    using assms by (intro startVideoOnMediaStream_begin_bound) simp_all
  then show ?thesis
    using assms by (simp add: setInputMediaStream_begin_def)
qed

lemma setInputMediaStream_resume_result:
  "setInputMediaStream_resume playResolved h w =
     (None, h, snd (cloneInputAudioTracksToOutput h (startVideoOnMediaStream_resume playResolved w)))"
  using cloneInputAudioTracksToOutput_handler [of h "startVideoOnMediaStream_resume playResolved w"]
  by (simp add: setInputMediaStream_resume_def Let_def case_prod_beta prod_eq_iff)

lemma setInputMediaStream_resume_tracks:
  "tracks (snd (snd (setInputMediaStream_resume playResolved h w))) = tracks w"
  by (simp add: setInputMediaStream_resume_result cloneInputAudioTracksToOutput_tracks
        startVideoOnMediaStream_resume_def logger_warn_def)

lemma setInputMediaStream_with_video:
  assumes "getVideoTracks w s = t # ts"
  shows "\<exists>w2. tracks w2 = tracks w \<and>
           setInputMediaStream playResolved (Some s) h w =
             (None,
              h\<lparr>inputVideoStream := Some s,
                canvasOutput := (canvasOutput h)
                   \<lparr>width := reflectedDimension 300 (toUnsignedLong (settingsWidth (tracks w t))),
                    height := reflectedDimension 150 (toUnsignedLong (settingsHeight (tracks w t)))\<rparr>,
                videoInput := (videoInput h)
                   \<lparr>loadedmetadataListener := True, srcObject := Some s, playsinline := True,
                    loadCalls := Suc (loadCalls (videoInput h)),
                    playCalls := Suc (playCalls (videoInput h))\<rparr>\<rparr>,
              w2)"
proof -
  define h2 where
    "h2 = h\<lparr>inputVideoStream := Some s,
              canvasOutput := (canvasOutput h)
                 \<lparr>width := reflectedDimension 300 (toUnsignedLong (settingsWidth (tracks w t))),
                  height := reflectedDimension 150 (toUnsignedLong (settingsHeight (tracks w t)))\<rparr>,
              videoInput := (videoInput h)
                 \<lparr>loadedmetadataListener := True, srcObject := Some s, playsinline := True,
                  loadCalls := Suc (loadCalls (videoInput h)),
                  playCalls := Suc (playCalls (videoInput h))\<rparr>\<rparr>"
  have b: "setInputMediaStream_begin (Some s) h w = (AwaitingPlay, h2, w)"
    unfolding h2_def using assms by (rule setInputMediaStream_begin_with_video)
  have "setInputMediaStream playResolved (Some s) h w =
          (None, h2, snd (snd (setInputMediaStream_resume playResolved h2 w)))"
    by (simp add: setInputMediaStream_def b setInputMediaStream_resume_result)
  moreover have "tracks (snd (snd (setInputMediaStream_resume playResolved h2 w))) = tracks w"
    by (rule setInputMediaStream_resume_tracks)
  ultimately show ?thesis
    unfolding h2_def by blast
qed

text \<open>
  In the event loop a timeout leaves the pending ones only by firing, as long as no handle
  was ever stored in \<^verbatim>\<open>lastTimeOut\<close>: every other event keeps it.
\<close>

lemma process_keeps_pending:
  "set (pendingTimeouts h) \<subseteq> set (pendingTimeouts (fst (snd (process inp h w))))"
  by (auto simp: process_def setTimeout_def Let_def split: sum.splits)

lemma step_keeps_other_timeouts:
  assumes "lastTimeOut (fst st) = None" and "t \<in> set (pendingHandles st)"
    and "\<forall>inp. e \<noteq> TimeoutFires t inp"
  shows "t \<in> set (pendingHandles (step e st))"
proof (cases st)
  case (Pair h w)
  with assms have n: "lastTimeOut h = None" and t: "t \<in> fst ` set (pendingTimeouts h)"
    by (simp_all add: pendingHandles_def)
  show ?thesis
  proof (cases e)
    case (TimeoutFires t' inp)
    with assms(3) have "t' \<noteq> t" by auto
    with t have "t \<in> fst ` set (pendingTimeouts (clearTimeout t' h))"
      by (auto simp: clearTimeout_def)
    with process_keeps_pending [of "clearTimeout t' h" inp w]
    have "t \<in> fst ` set (pendingTimeouts (fst (snd (process inp (clearTimeout t' h) w))))"
      by blast
    with t show ?thesis
      using Pair TimeoutFires by (simp add: pendingHandles_def case_prod_beta)
  next
    case (LoadedMetadata inp)
    from t process_keeps_pending [of h inp w]
    have "t \<in> fst ` set (pendingTimeouts (fst (snd (process inp h w))))"
      by blast
    with t show ?thesis
      using Pair LoadedMetadata by (simp add: pendingHandles_def case_prod_beta)
  next
    case CallStop
    then show ?thesis
      using Pair t stop_without_handle(1) [OF n, of w] by (simp add: pendingHandles_def)
  next
    case (CallSetInputMediaStream p s)
    have "pendingTimeouts (fst (snd (setInputMediaStream p s h w))) = pendingTimeouts h"
    proof (cases s)
      case None
      then show ?thesis
        using stop_without_handle(1) [OF n, of w]
        by (simp add: setInputMediaStream_def setInputMediaStream_begin_def case_prod_beta)
    next
      case (Some x)
      show ?thesis
      proof (cases "getVideoTracks w x")
        case Nil
        with Some show ?thesis
          by (simp add: setInputMediaStream_def setInputMediaStream_begin_def)
      next
        case (Cons v vs)
        from setInputMediaStream_with_video [OF Cons, of p h] Some
        show ?thesis by auto
      qed
    qed
    with t show ?thesis
      using Pair CallSetInputMediaStream by (simp add: pendingHandles_def case_prod_beta)
  next
    case CallGetActiveOutputMediaStream
    have "pendingTimeouts (fst (snd (getActiveOutputMediaStream h w))) = pendingTimeouts h"
      by (simp add: getActiveOutputMediaStream_def captureStream_def Let_def case_prod_beta
            cloneInputAudioTracksToOutput_handler)
    with t show ?thesis
      using Pair CallGetActiveOutputMediaStream by (simp add: pendingHandles_def case_prod_beta)
  qed
qed

text \<open>
  C2, as amended. A call of \<^verbatim>\<open>setInputMediaStream\<close> with a stream that has a video track runs
  in two parts. Up to its wait for \<^verbatim>\<open>play()\<close> it binds the new stream as the frame source,
  sizes the sink from the settings of the stream's first video track as the canvas stores
  them, registers \<^verbatim>\<open>process\<close> for the source's metadata event and leaves the world as it is:
  every timeout pending before is still pending, and no track is stopped. When it resumes,
  in whatever state the callbacks that ran meanwhile have left, it returns normally, leaves
  the handler as it finds it, so cancels no timeout, and stops no track. Neither part stops
  an earlier chain.
\<close>

theorem setInputMediaStream_binds_and_cancels_nothing:
  assumes "getVideoTracks w s \<noteq> []"
  shows "(case setInputMediaStream_begin (Some s) h w of (p, h', w') \<Rightarrow>
            p = AwaitingPlay \<and> w' = w
            \<and> inputVideoStream h' = Some s
            \<and> srcObject (videoInput h') = Some s \<and> loadedmetadataListener (videoInput h')
            \<and> width (canvasOutput h') =
                reflectedDimension 300
                  (toUnsignedLong (settingsWidth (tracks w (hd (getVideoTracks w s)))))
            \<and> height (canvasOutput h') =
                reflectedDimension 150
                  (toUnsignedLong (settingsHeight (tracks w (hd (getVideoTracks w s)))))
            \<and> pendingTimeouts h' = pendingTimeouts h)
         \<and> (\<forall>playResolved hr wr.
               case setInputMediaStream_resume playResolved hr wr of (e, h'', w'') \<Rightarrow>
                 e = None \<and> h'' = hr \<and> pendingTimeouts h'' = pendingTimeouts hr
                 \<and> tracks w'' = tracks wr)"
proof -
  from assms obtain t ts where ts: "getVideoTracks w s = t # ts"
    by (cases "getVideoTracks w s") auto
  have first: "case setInputMediaStream_begin (Some s) h w of (p, h', w') \<Rightarrow>
            p = AwaitingPlay \<and> w' = w
            \<and> inputVideoStream h' = Some s
            \<and> srcObject (videoInput h') = Some s \<and> loadedmetadataListener (videoInput h')
            \<and> width (canvasOutput h') =
                reflectedDimension 300
                  (toUnsignedLong (settingsWidth (tracks w (hd (getVideoTracks w s)))))
            \<and> height (canvasOutput h') =
                reflectedDimension 150
                  (toUnsignedLong (settingsHeight (tracks w (hd (getVideoTracks w s)))))
            \<and> pendingTimeouts h' = pendingTimeouts h"
    by (simp add: setInputMediaStream_begin_with_video [OF ts] ts)
  have second: "case setInputMediaStream_resume playResolved hr wr of (e, h'', w'') \<Rightarrow>
                 e = None \<and> h'' = hr \<and> pendingTimeouts h'' = pendingTimeouts hr
                 \<and> tracks w'' = tracks wr" for playResolved hr wr
    using setInputMediaStream_resume_tracks [of playResolved hr wr]
    by (simp add: setInputMediaStream_resume_result)
  show ?thesis by (intro conjI allI first second)
qed

theorem setInputMediaStream_binds_and_cancels_nothing_witness:
  "getVideoTracks (snd ticking) 1 \<noteq> []
   \<and> pendingTimeouts (fst ticking) = [(1, 185 / 3)]
   \<and> fst (setInputMediaStream_begin (Some 1) (fst ticking) (snd ticking)) = AwaitingPlay
   \<and> inputVideoStream (fst suspended) = Some 1
   \<and> pendingTimeouts (fst suspended) = [(1, 185 / 3)]
   \<and> fst (setInputMediaStream_resume True (fst suspended) (snd suspended)) = None
   \<and> pendingTimeouts (fst (snd (setInputMediaStream_resume True (fst suspended) (snd suspended)))) =
       [(1, 185 / 3)]"
proof -
  have v: "getVideoTracks (snd ticking) 1 \<noteq> []"
    by (simp add: handler_defs example_defs)
  have p: "pendingTimeouts (fst ticking) = [(1, 185 / 3)]"
    by (simp add: handler_defs example_defs)
  show ?thesis
    using v p setInputMediaStream_binds_and_cancels_nothing
      [where h = "fst ticking", OF v]
    by (auto simp: suspended_def case_prod_beta)
qed

text \<open>
  While the call waits, the earlier chain goes on: timeout 1 fires, writes to the sink and
  schedules timeout 2, and the call then returns with timeout 2 pending.
\<close>

lemma tick_during_suspended_call:
  "pendingHandles suspended = [1]
   \<and> sinkWrites suspended = 1
   \<and> pendingHandles (step (TimeoutFires 1 tickB) suspended) = [2]
   \<and> sinkWrites (step (TimeoutFires 1 tickB) suspended) = 2
   \<and> pendingHandles (snd (setInputMediaStream_resume True
        (fst (step (TimeoutFires 1 tickB) suspended))
        (snd (step (TimeoutFires 1 tickB) suspended)))) = [2]"
  by (simp add: handler_defs suspended_def example_defs)

text \<open>
  C2, as the specification states it, does not hold. While the chain on camera A has timeout 1 pending, camera B is bound:
  timeout 1 stays pending, the metadata event starts a second chain (timeout 2), and both
  timeouts fire, each writing to the one sink and each rescheduling itself.
\<close>

theorem setInputMediaStream_stops_old_chain_counterexample:
  "pendingHandles ticking = [1]
   \<and> getVideoTracks (snd ticking) 1 = [2]
   \<and> inputVideoStream (fst (step (CallSetInputMediaStream True (Some 1)) ticking)) = Some 1
   \<and> pendingHandles (step (CallSetInputMediaStream True (Some 1)) ticking) = [1]
   \<and> pendingHandles (run [CallSetInputMediaStream True (Some 1), LoadedMetadata tickB] ticking) = [1, 2]
   \<and> sinkWrites (run [CallSetInputMediaStream True (Some 1), LoadedMetadata tickB] ticking) = 2
   \<and> sinkWrites (run [CallSetInputMediaStream True (Some 1), LoadedMetadata tickB,
                       TimeoutFires 1 tickB] ticking) = 3
   \<and> sinkWrites (run [CallSetInputMediaStream True (Some 1), LoadedMetadata tickB,
                       TimeoutFires 1 tickB, TimeoutFires 2 tickB] ticking) = 4
   \<and> pendingHandles (run [CallSetInputMediaStream True (Some 1), LoadedMetadata tickB,
                       TimeoutFires 1 tickB, TimeoutFires 2 tickB] ticking) = [3, 4]"
  by (simp add: handler_defs example_defs)

subsection \<open>The output handle after a call\<close>

text \<open>
  Whatever the state, the handle \<^verbatim>\<open>getActiveOutputMediaStream\<close> returns is active afterwards:
  the captured stream holds the live canvas track, which audio synchronisation never removes.
\<close>

lemma getActiveOutputMediaStream_activates:
  "isOutputMediaStreamActive (fst (snd (getActiveOutputMediaStream h w)))
     (snd (snd (getActiveOutputMediaStream h w)))"
proof (cases "isOutputMediaStreamActive h w")
  case True
  then show ?thesis by (simp add: getActiveOutputMediaStream_def)
next
  case False
  define s where "s = nextStream w"
  define c where "c = nextTrack w"
  define w1 where "w1 = snd (captureStream (canvasOutput h) (framerate h) w)"
  define h1 where "h1 = h\<lparr>outputMediaStream := s\<rparr>"
  have cap: "captureStream (canvasOutput h) (framerate h) w = (s, w1)"
    by (simp add: captureStream_def s_def w1_def)
  have str1: "streams w1 s = [c]" and live: "readyState (tracks w1 c) = Live"
    and vid: "kind (tracks w1 c) = Video"
    by (simp_all add: w1_def captureStream_def s_def c_def)
  have res: "getActiveOutputMediaStream h w =
               (s, h1, snd (cloneInputAudioTracksToOutput h1 w1))"
    using False cloneInputAudioTracksToOutput_handler [of h1 w1]
    by (simp add: getActiveOutputMediaStream_def cap h1_def case_prod_beta prod_eq_iff)
  have "active (snd (cloneInputAudioTracksToOutput h1 w1)) s"
  proof (cases "\<not> isOutputMediaStreamActive h1 w1 \<or> inputVideoStream h1 = None")
    case True
    then have "snd (cloneInputAudioTracksToOutput h1 w1) =
                 logger_info [Txt ''Not cloning input audio tracks to output, do not have media streams ready''] w1"
      by (auto simp: cloneInputAudioTracksToOutput_def)
    then show ?thesis using str1 live by (simp add: active_def)
  next
    case False
    then obtain inp where inp: "inputVideoStream h1 = Some inp" by auto
    have noaudio: "getAudioTracks w1 s = []"
      using str1 vid by (simp add: getAudioTracks_def)
    let ?ad = "\<lambda>audioTrack w'. addTrack s audioTrack
               (logger_info [Txt ''Adding audio track '', TrackId audioTrack,
                             Txt '' to output stream''] w')"
    have w2: "snd (cloneInputAudioTracksToOutput h1 w1) = fold ?ad (getAudioTracks w1 inp) w1"
      using False inp noaudio by (simp add: cloneInputAudioTracksToOutput_def h1_def)
    obtain ys where "streams (fold ?ad (getAudioTracks w1 inp) w1) = (streams w1)(s := streams w1 s @ ys)"
      using fold_addTrack_streams [where out = s and as = "getAudioTracks w1 inp" and w = w1
        and msg = "\<lambda>t. [Txt ''Adding audio track '', TrackId t, Txt '' to output stream'']"]
      by blast
    moreover have "tracks (fold ?ad (getAudioTracks w1 inp) w1) = tracks w1"
      by (rule fold_addTrack_tracks)
    ultimately show ?thesis
      using str1 live by (simp add: w2 active_def)
  qed
  then show ?thesis
    by (simp add: res isOutputMediaStreamActive_def h1_def)
qed

section \<open>Properties of the transform device\<close>

lemmas device_defs = chooseNewInnerDevice_def new_PremiumVideoTransformDevice_def
  new_PremiumVideoStreamHandler_def new_MediaStream_def getInnerDevice_def getEffectConfig_def
  setRedShiftState_def setBlueShiftState_def exampleDevice_def

text \<open>
  C9. \<^verbatim>\<open>chooseNewInnerDevice(d2)\<close> returns a device made by the constructor: bound to \<open>d2\<close>,
  with no recorded input and a handler of its own whose output stream is allocated by the
  call. It holds the driver of the original, so \<^verbatim>\<open>getEffectConfig()\<close> gives the same config
  object through either device: a flag set through the original, before or after the swap,
  reads the same through the new device.
\<close>

theorem chooseNewInnerDevice_shares_effect_config:
  "(case chooseNewInnerDevice d2 dev w of (dev', w') \<Rightarrow>
      getInnerDevice dev' = d2
      \<and> inputMediaStream dev' = None
      \<and> inputVideoStream (premiumVideoStreamHandler dev') = None
      \<and> outputMediaStream (premiumVideoStreamHandler dev') = nextStream w
      \<and> nextStream w' = Suc (nextStream w)
      \<and> deviceVideoEffectDriver dev' = deviceVideoEffectDriver dev
      \<and> videoEffectDriver (premiumVideoStreamHandler dev') = deviceVideoEffectDriver dev
      \<and> getEffectConfig (deviceVideoEffectDriver dev') = getEffectConfig (deviceVideoEffectDriver dev)
      \<and> configs w' = configs w
      \<and> redShiftEnabled (configs (setRedShiftState (deviceVideoEffectDriver dev) enabled w')
            (getEffectConfig (deviceVideoEffectDriver dev'))) = enabled
      \<and> blueShiftEnabled (configs (setBlueShiftState (deviceVideoEffectDriver dev) enabled w')
            (getEffectConfig (deviceVideoEffectDriver dev'))) = enabled)
   \<and> (case chooseNewInnerDevice d2 dev (setRedShiftState (deviceVideoEffectDriver dev) enabled w) of
        (dev', w') \<Rightarrow>
          redShiftEnabled (configs w' (getEffectConfig (deviceVideoEffectDriver dev'))) = enabled)
   \<and> (case chooseNewInnerDevice d2 dev (setBlueShiftState (deviceVideoEffectDriver dev) enabled w) of
        (dev', w') \<Rightarrow>
          blueShiftEnabled (configs w' (getEffectConfig (deviceVideoEffectDriver dev'))) = enabled)"
  by (simp add: device_defs Let_def)

theorem chooseNewInnerDevice_shares_effect_config_witness:
  "redShiftEnabled (configs
      (snd (chooseNewInnerDevice (Physical ''camera-B'') exampleDevice
              (setRedShiftState (deviceVideoEffectDriver exampleDevice) True exampleWorld)))
      (getEffectConfig (deviceVideoEffectDriver
         (fst (chooseNewInnerDevice (Physical ''camera-B'') exampleDevice
                 (setRedShiftState (deviceVideoEffectDriver exampleDevice) True exampleWorld))))))
   \<and> \<not> redShiftEnabled (configs exampleWorld (getEffectConfig (deviceVideoEffectDriver exampleDevice)))
   \<and> getInnerDevice (fst (chooseNewInnerDevice (Physical ''camera-B'') exampleDevice exampleWorld))
       = Physical ''camera-B''"
proof -
  have "\<not> redShiftEnabled (configs exampleWorld (getEffectConfig (deviceVideoEffectDriver exampleDevice)))"
    by (simp add: example_defs device_defs)
  then show ?thesis
    using chooseNewInnerDevice_shares_effect_config
      [where ?d2.0 = "Physical ''camera-B''" and dev = exampleDevice and w = exampleWorld
         and enabled = True]
    by (simp add: case_prod_beta)
qed








end
